theory Spec2Isabelle
  imports Complex_Main "HOL-Library.Sublist"
begin

section \<open>The loan processing pipeline (dags/loan\_data\_processing.py)\<close>

text \<open>
  The module defines five Python callables and wires nine operators into one DAG.
  The callables are embedded as functions over an explicit environment (the local
  file system, the object store, the relational store and the XCom key-value store
  of the run); the operators and their wiring are embedded as data, and a run of
  the DAG as a fold over the tasks in dependency order.
\<close>

subsection \<open>Module constants\<close>

definition AWS_S3_CONN_ID :: string where
  "AWS_S3_CONN_ID = ''aws_default''"

definition SOURCE_S3_KEY :: string where
  "SOURCE_S3_KEY = ''data/raw-data/loan_data_small.csv''"

definition SOURCE_S3_BUCKET :: string where
  "SOURCE_S3_BUCKET = ''beranger-bucket-760254833251''"

definition DEST_PATH_FILE :: string where
  "DEST_PATH_FILE = ''/opt/airflow/data/raw-data''"

subsection \<open>Paths and the local file system\<close>

text \<open>
  \<^verbatim>\<open>os.path.join(a, b)\<close> on POSIX: an absolute second component replaces the
  first; otherwise the components are joined by one separator unless the first is
  empty or already ends with one.
\<close>

definition os_path_join :: "string \<Rightarrow> string \<Rightarrow> string" where
  "os_path_join a b =
     (if b \<noteq> [] \<and> hd b = CHR ''/'' then b
      else if a = [] \<or> last a = CHR ''/'' then a @ b
      else a @ ''/'' @ b)"

text \<open>\<^verbatim>\<open>os.path.basename(p)\<close>: what follows the last separator.\<close>

definition os_path_basename :: "string \<Rightarrow> string" where
  "os_path_basename p = rev (takeWhile (\<lambda>c. c \<noteq> CHR ''/'') (rev p))"

datatype node = Dir | File string

type_synonym filesystem = "string \<rightharpoonup> node"

text \<open>\<^verbatim>\<open>os.path.exists\<close> is true for a directory as well as for a regular file.\<close>

definition os_path_exists :: "filesystem \<Rightarrow> string \<Rightarrow> bool" where
  "os_path_exists fs p = (case fs p of None \<Rightarrow> False | Some _ \<Rightarrow> True)"

subsection \<open>Values passed between tasks (XCom)\<close>

datatype pyval = PyNone | PyBool bool | PyInt int | PyNum rat | PyStr string

text \<open>The store is keyed by the pushing task's id and the key.\<close>

type_synonym xcom_store = "(string \<times> string) \<rightharpoonup> pyval"

definition xcom_push :: "string \<Rightarrow> string \<Rightarrow> pyval \<Rightarrow> xcom_store \<Rightarrow> xcom_store" where
  "xcom_push ti key v x = x((ti, key) \<mapsto> v)"

text \<open>\<^verbatim>\<open>ti.xcom_pull\<close> yields \<^verbatim>\<open>None\<close> when nothing was pushed under the key.\<close>

definition xcom_pull :: "xcom_store \<Rightarrow> string \<Rightarrow> string \<Rightarrow> pyval" where
  "xcom_pull x key task_ids = (case x (task_ids, key) of None \<Rightarrow> PyNone | Some v \<Rightarrow> v)"

subsection \<open>The presence check and the branch\<close>

text \<open>
  \<^verbatim>\<open>_is_data_local(ti, datapath)\<close>: pushes whether \<^verbatim>\<open>datapath\<close> exists. The first
  argument is the id of the task instance that runs the callable.
\<close>

definition p_is_data_local :: "string \<Rightarrow> string \<Rightarrow> filesystem \<Rightarrow> xcom_store \<Rightarrow> xcom_store" where
  "p_is_data_local ti datapath fs x =
     (let is_local = os_path_exists fs datapath
      in xcom_push ti ''is_local'' (PyBool is_local) x)"

text \<open>
  \<^verbatim>\<open>_branch(ti)\<close>: \<^verbatim>\<open>value is True\<close> holds for the boolean \<^verbatim>\<open>True\<close> only; every
  other value, \<^verbatim>\<open>None\<close> included, takes the \<^verbatim>\<open>else\<close>.
\<close>

definition p_branch :: "xcom_store \<Rightarrow> string" where
  "p_branch x =
     (let v = xcom_pull x ''is_local'' ''is_data_local''
      in if v = PyBool True then ''log_data_is_local'' else ''log_data_is_remote'')"

text \<open>The \<^verbatim>\<open>datapath\<close> keyword arguments of the operators, as the module computes them.\<close>

definition is_data_local_datapath :: string where
  "is_data_local_datapath = DEST_PATH_FILE"

definition compute_general_aggregats_datapath :: string where
  "compute_general_aggregats_datapath = os_path_join DEST_PATH_FILE ''loan_data_small.csv''"

definition compute_loan_aggregats_datapath :: string where
  "compute_loan_aggregats_datapath = os_path_join DEST_PATH_FILE ''loan_data_small.csv''"

subsection \<open>Errors\<close>

text \<open>The exceptions the callables and the external systems raise.\<close>

datatype error =
    FileNotFoundError
  | IsADirectoryError
  | NotADirectoryError
  | FileExistsError
  | EmptyDataError
  | ParserError
  | PandaSQLException
  | AirflowException
  | UndefinedTable
  | UndefinedColumn
  | SyntaxError

subsection \<open>Reading the dataset: \<^verbatim>\<open>pd.read_csv\<close>\<close>

text \<open>
  The library call is modelled for plain comma-separated text: lines end with a
  line feed, fields are separated by commas, there is no quoting. Blank lines are
  skipped, the first remaining line is the header, a short record is padded with
  missing values, and a record longer than the first record (or than the header,
  when that is longer) is a parser error. Fields of the first record beyond the
  header's count are leading index fields and are not data columns.
\<close>

fun split_on :: "char \<Rightarrow> string \<Rightarrow> string list" where
  "split_on d [] = [[]]"
| "split_on d (c # cs) =
     (if c = d then [] # split_on d cs
      else (case split_on d cs of
              [] \<Rightarrow> [[c]]
            | w # ws \<Rightarrow> (c # w) # ws))"

definition csv_lines :: "string \<Rightarrow> string list" where
  "csv_lines text = filter (\<lambda>l. l \<noteq> []) (split_on CHR 0x0A text)"

datatype cell = NaN | Num rat | Str string

text \<open>The strings the reader takes for a missing value by default.\<close>

definition na_values :: "string list" where
  "na_values =
     ['''', ''#N/A'', ''#N/A N/A'', ''#NA'', ''-1.#IND'', ''-1.#QNAN'', ''-NaN'', ''-nan'',
      ''1.#IND'', ''1.#QNAN'', ''<NA>'', ''N/A'', ''NA'', ''NULL'', ''NaN'', ''None'',
      ''n/a'', ''nan'', ''null'']"

definition digit_val :: "char \<Rightarrow> nat option" where
  "digit_val c =
     (let n = (of_char c :: nat) in if 48 \<le> n \<and> n \<le> 57 then Some (n - 48) else None)"

text \<open>The value of a run of decimal digits, most significant first.\<close>

fun digits_val :: "nat \<Rightarrow> string \<Rightarrow> nat option" where
  "digits_val acc [] = Some acc"
| "digits_val acc (c # cs) =
     (case digit_val c of None \<Rightarrow> None | Some v \<Rightarrow> digits_val (10 * acc + v) cs)"

text \<open>
  An unsigned literal in plain decimal notation: digits, optionally with a point;
  at least one digit on one side of the point.
\<close>

definition unsigned_val :: "string \<Rightarrow> rat option" where
  "unsigned_val s =
     (let ip = takeWhile (\<lambda>c. c \<noteq> CHR ''.'') s;
          fp = (case dropWhile (\<lambda>c. c \<noteq> CHR ''.'') s of [] \<Rightarrow> [] | _ # f \<Rightarrow> f)
      in if ip = [] \<and> fp = [] then None
         else (case (digits_val 0 ip, digits_val 0 fp) of
                 (Some i, Some f) \<Rightarrow> Some (of_nat i + of_nat f / of_nat (10 ^ length fp))
               | _ \<Rightarrow> None))"

definition number_val :: "string \<Rightarrow> rat option" where
  "number_val s =
     (case s of
        [] \<Rightarrow> None
      | c # cs \<Rightarrow>
          if c = CHR ''-'' then map_option uminus (unsigned_val cs)
          else if c = CHR ''+'' then unsigned_val cs
          else unsigned_val s)"

definition parse_cell :: "string \<Rightarrow> cell" where
  "parse_cell s =
     (if s \<in> set na_values then NaN
      else (case number_val s of Some v \<Rightarrow> Num v | None \<Rightarrow> Str s))"

record dataframe =
  df_columns :: "string list"
  df_rows :: "cell list list"

text \<open>\<^verbatim>\<open>df.shape\<close>: the number of rows, then the number of columns.\<close>

definition shape :: "dataframe \<Rightarrow> nat \<times> nat" where
  "shape df = (length (df_rows df), length (df_columns df))"

definition pad :: "nat \<Rightarrow> cell list \<Rightarrow> cell list" where
  "pad n r = r @ replicate (n - length r) NaN"

definition read_csv_text :: "string \<Rightarrow> error + dataframe" where
  "read_csv_text text =
     (case csv_lines text of
        [] \<Rightarrow> Inl EmptyDataError
      | h # ds \<Rightarrow>
          (let names = split_on CHR '','' h;
               n = length names;
               recs = map (split_on CHR '','') ds;
               k = (case recs of [] \<Rightarrow> 0 | r # _ \<Rightarrow> length r - n)
           in if list_ex (\<lambda>r. n + k < length r) recs then Inl ParserError
              else Inr \<lparr>df_columns = names,
                        df_rows = map (\<lambda>r. pad n (map parse_cell (drop k r))) recs\<rparr>))"

definition pd_read_csv :: "filesystem \<Rightarrow> string \<Rightarrow> error + dataframe" where
  "pd_read_csv fs datapath =
     (case fs datapath of
        None \<Rightarrow> Inl FileNotFoundError
      | Some Dir \<Rightarrow> Inl IsADirectoryError
      | Some (File text) \<Rightarrow> read_csv_text text)"

subsection \<open>The general aggregates\<close>

text \<open>\<^verbatim>\<open>_compute_general_aggregats(ti, datapath)\<close>.\<close>

definition p_compute_general_aggregats ::
  "string \<Rightarrow> string \<Rightarrow> filesystem \<Rightarrow> xcom_store \<Rightarrow> error + xcom_store" where
  "p_compute_general_aggregats ti datapath fs x =
     (case pd_read_csv fs datapath of
        Inl e \<Rightarrow> Inl e
      | Inr df \<Rightarrow>
          (let nb_lines = fst (shape df);
               nb_cols = snd (shape df)
           in Inr (xcom_push ti ''nb_cols'' (PyInt (int nb_cols))
                    (xcom_push ti ''nb_lines'' (PyInt (int nb_lines)) x))))"

subsection \<open>The loan aggregates\<close>

text \<open>
  The query runs in SQLite on the data frame. A missing value is stored as NULL;
  \<^verbatim>\<open>AVG\<close> leaves NULLs out, takes a text that is not a number for 0, and is NULL
  over no value at all. \<^verbatim>\<open>grade = 'A'\<close> holds for the text \<^verbatim>\<open>A\<close> only. Columns are
  found by name, as written in the header.
\<close>

fun index_of :: "'a \<Rightarrow> 'a list \<Rightarrow> nat option" where
  "index_of a [] = None"
| "index_of a (b # bs) = (if a = b then Some 0 else map_option Suc (index_of a bs))"

definition cell_at :: "nat \<Rightarrow> cell list \<Rightarrow> cell" where
  "cell_at i r = (if i < length r then r ! i else NaN)"

fun sql_number :: "cell \<Rightarrow> rat option" where
  "sql_number NaN = None"
| "sql_number (Num v) = Some v"
| "sql_number (Str s) = Some 0"

definition sql_avg :: "cell list \<Rightarrow> rat option" where
  "sql_avg cs =
     (let vs = List.map_filter sql_number cs
      in if vs = [] then None else Some (sum_list vs / of_nat (length vs)))"

text \<open>\<^verbatim>\<open>SELECT AVG(loan_amount) FROM df WHERE grade = g\<close>.\<close>

definition avg_loan_amount_where_grade :: "string \<Rightarrow> dataframe \<Rightarrow> error + rat option" where
  "avg_loan_amount_where_grade g df =
     (case (index_of ''loan_amount'' (df_columns df), index_of ''grade'' (df_columns df)) of
        (Some i, Some j) \<Rightarrow>
          Inr (sql_avg (map (cell_at i) (filter (\<lambda>r. cell_at j r = Str g) (df_rows df))))
      | _ \<Rightarrow> Inl PandaSQLException)"

fun to_pyval :: "rat option \<Rightarrow> pyval" where
  "to_pyval None = PyNone"
| "to_pyval (Some v) = PyNum v"

text \<open>The four scalar subqueries of \<^verbatim>\<open>query\<close>, as the one-row result keyed by alias.\<close>

definition loan_query :: "dataframe \<Rightarrow> error + (string \<times> pyval) list" where
  "loan_query df =
     (case (avg_loan_amount_where_grade ''A'' df, avg_loan_amount_where_grade ''B'' df,
            avg_loan_amount_where_grade ''C'' df, avg_loan_amount_where_grade ''D'' df) of
        (Inr a, Inr b, Inr c, Inr d) \<Rightarrow>
          Inr [(''mean_loan_a'', to_pyval a), (''mean_loan_b'', to_pyval b),
               (''mean_loan_c'', to_pyval c), (''mean_loan_d'', to_pyval d)]
      | _ \<Rightarrow> Inl PandaSQLException)"

text \<open>\<^verbatim>\<open>_compute_loan_aggregats(ti, datapath)\<close>: one push per item of the result.\<close>

definition p_compute_loan_aggregats ::
  "string \<Rightarrow> string \<Rightarrow> filesystem \<Rightarrow> xcom_store \<Rightarrow> error + xcom_store" where
  "p_compute_loan_aggregats ti datapath fs x =
     (case pd_read_csv fs datapath of
        Inl e \<Rightarrow> Inl e
      | Inr df \<Rightarrow>
          (case loan_query df of
             Inl e \<Rightarrow> Inl e
           | Inr output_dict \<Rightarrow> Inr (fold (\<lambda>(k, v). xcom_push ti k v) output_dict x)))"

subsection \<open>The remote fetch\<close>

text \<open>The object store: contents by bucket and key.\<close>

type_synonym object_store = "(string \<times> string) \<rightharpoonup> string"

text \<open>
  \<^verbatim>\<open>_extract_from_s3(key, bucket_name, local_path)\<close>: the hook's \<^verbatim>\<open>download_file\<close>
  with \<^verbatim>\<open>preserve_file_name=True\<close> and no generated subdirectory. It fails when the
  object is missing, refuses to overwrite a file of the same name, creates the
  directory when needed and writes the object under its base name. The result is the
  file name and the file system after the download.
\<close>

definition p_extract_from_s3 ::
  "string \<Rightarrow> string \<Rightarrow> string \<Rightarrow> object_store \<Rightarrow> filesystem \<Rightarrow> error + (string \<times> filesystem)" where
  "p_extract_from_s3 key bucket_name local_path s3 fs =
     (case s3 (bucket_name, key) of
        None \<Rightarrow> Inl AirflowException
      | Some content \<Rightarrow>
          (let file_name = os_path_join local_path (os_path_basename key)
           in (case fs file_name of
                 Some (File _) \<Rightarrow> Inl FileExistsError
               | _ \<Rightarrow>
                 (case fs local_path of
                    Some (File _) \<Rightarrow> Inl NotADirectoryError
                  | _ \<Rightarrow> Inr (file_name, fs(local_path \<mapsto> Dir, file_name \<mapsto> File content))))))"

subsection \<open>The relational store\<close>

datatype sql_type = numeric | timestamp

datatype sql_value = NULL | NumV rat | TimeV nat

record table =
  tbl_columns :: "(string \<times> sql_type) list"
  tbl_rows :: "sql_value list list"

type_synonym database = "string \<rightharpoonup> table"

text \<open>
  A value expression of the rendered insert statement: a numeric literal, the
  current timestamp, or any other rendered text (the template renders Python's
  \<^verbatim>\<open>None\<close> as the word \<^verbatim>\<open>None\<close>, which the store does not accept as a value).
\<close>

datatype sql_expr = Lit rat | CURRENT_TIMESTAMP | Raw string

datatype sql_stmt =
    CreateTableIfNotExists string "(string \<times> sql_type) list"
  | InsertInto string "string list" "sql_expr list"

fun eval_expr :: "nat \<Rightarrow> sql_expr \<Rightarrow> error + sql_value" where
  "eval_expr now (Lit v) = Inr (NumV v)"
| "eval_expr now CURRENT_TIMESTAMP = Inr (TimeV now)"
| "eval_expr now (Raw s) = Inl UndefinedColumn"

fun eval_exprs :: "nat \<Rightarrow> sql_expr list \<Rightarrow> error + sql_value list" where
  "eval_exprs now [] = Inr []"
| "eval_exprs now (e # es) =
     (case eval_expr now e of
        Inl err \<Rightarrow> Inl err
      | Inr v \<Rightarrow> (case eval_exprs now es of Inl err \<Rightarrow> Inl err | Inr vs \<Rightarrow> Inr (v # vs)))"

text \<open>
  Executing a statement at time \<^verbatim>\<open>now\<close>. Creation does nothing when a table of the
  name exists. An insert needs the table and every named column to exist, and as
  many values as columns; the row takes NULL in the columns not named.
\<close>

fun exec_sql :: "nat \<Rightarrow> sql_stmt \<Rightarrow> database \<Rightarrow> error + database" where
  "exec_sql now (CreateTableIfNotExists name cols) db =
     (case db name of
        Some _ \<Rightarrow> Inr db
      | None \<Rightarrow> Inr (db(name \<mapsto> \<lparr>tbl_columns = cols, tbl_rows = []\<rparr>)))"
| "exec_sql now (InsertInto name cols exprs) db =
     (case db name of
        None \<Rightarrow> Inl UndefinedTable
      | Some t \<Rightarrow>
          if list_ex (\<lambda>c. c \<notin> set (map fst (tbl_columns t))) cols then Inl UndefinedColumn
          else if length cols \<noteq> length exprs then Inl SyntaxError
          else (case eval_exprs now exprs of
                  Inl err \<Rightarrow> Inl err
                | Inr vs \<Rightarrow>
                    (let row = map (\<lambda>(c, _). case map_of (zip cols vs) c of
                                                None \<Rightarrow> NULL | Some v \<Rightarrow> v) (tbl_columns t)
                     in Inr (db(name \<mapsto> t\<lparr>tbl_rows := tbl_rows t @ [row]\<rparr>)))))"

text \<open>The columns the create statement declares.\<close>

definition summary_columns :: "(string \<times> sql_type) list" where
  "summary_columns =
     [(''nb_lines'', numeric), (''nb_cols'', numeric), (''date_and_hour'', timestamp),
      (''mean_loan_a'', numeric), (''mean_loan_b'', numeric), (''mean_loan_c'', numeric),
      (''mean_loan_d'', numeric)]"

text \<open>The statement of \<^verbatim>\<open>create_aggregats_table_if_needed\<close>.\<close>

definition create_aggregats_table_sql :: sql_stmt where
  "create_aggregats_table_sql = CreateTableIfNotExists ''aggregats_loans_table'' summary_columns"

text \<open>Executing one statement a number of times in a row, stopping at the first error.\<close>

fun exec_times :: "nat \<Rightarrow> nat \<Rightarrow> sql_stmt \<Rightarrow> database \<Rightarrow> error + database" where
  "exec_times 0 now stmt db = Inr db"
| "exec_times (Suc n) now stmt db =
     (case exec_sql now stmt db of Inl err \<Rightarrow> Inl err | Inr db' \<Rightarrow> exec_times n now stmt db')"

text \<open>How the template renders a pulled value into the statement.\<close>

fun render :: "pyval \<Rightarrow> sql_expr" where
  "render (PyInt n) = Lit (of_int n)"
| "render (PyNum v) = Lit v"
| "render PyNone = Raw ''None''"
| "render (PyBool b) = Raw (if b then ''True'' else ''False'')"
| "render (PyStr s) = Raw s"

text \<open>The statement of \<^verbatim>\<open>store_aggregats\<close>, rendered from the values pushed in the run.\<close>

definition store_aggregats_sql :: "xcom_store \<Rightarrow> sql_stmt" where
  "store_aggregats_sql x =
     InsertInto ''aggregats_loans_tabble''
       [''nb_lines'', ''nb_cols'', ''date_and_hour'', ''mean_loan_a'', ''mean_loan_b'',
        ''mean_loan_c'', ''mean_loan_d'']
       [render (xcom_pull x ''nb_lines'' ''compute_general_aggregats''),
        render (xcom_pull x ''nb_cols'' ''compute_general_aggregats''),
        CURRENT_TIMESTAMP,
        render (xcom_pull x ''mean_loan_a'' ''compute_loan_aggregats''),
        render (xcom_pull x ''mean_loan_b'' ''compute_loan_aggregats''),
        render (xcom_pull x ''mean_loan_c'' ''compute_loan_aggregats''),
        render (xcom_pull x ''mean_loan_d'' ''compute_loan_aggregats'')]"

fun target_table :: "sql_stmt \<Rightarrow> string" where
  "target_table (CreateTableIfNotExists name cols) = name"
| "target_table (InsertInto name cols exprs) = name"

subsection \<open>The DAG\<close>

text \<open>The nine operators of the module, by the names they are bound to.\<close>

datatype task =
    is_data_local
  | branch
  | log_data_is_local
  | log_data_is_remote
  | extract_data_from_s3
  | compute_general_aggregats
  | compute_loan_aggregats
  | create_aggregats_table_if_needed
  | store_aggregats

definition dag_tasks :: "task list" where
  "dag_tasks =
     [is_data_local, branch, log_data_is_local, log_data_is_remote, extract_data_from_s3,
      compute_general_aggregats, compute_loan_aggregats, create_aggregats_table_if_needed,
      store_aggregats]"

fun task_id :: "task \<Rightarrow> string" where
  "task_id is_data_local = ''is_data_local''"
| "task_id branch = ''branch''"
| "task_id log_data_is_local = ''log_data_is_local''"
| "task_id log_data_is_remote = ''log_data_is_remote''"
| "task_id extract_data_from_s3 = ''extract_data_from_s3''"
| "task_id compute_general_aggregats = ''compute_general_aggregats''"
| "task_id compute_loan_aggregats = ''compute_loan_aggregats''"
| "task_id create_aggregats_table_if_needed = ''create_table''"
| "task_id store_aggregats = ''store_aggregats''"

datatype operator =
  PythonOperator | BranchPythonOperator | BashOperator | DummyOperator | PostgresOperator

fun operator_of :: "task \<Rightarrow> operator" where
  "operator_of is_data_local = PythonOperator"
| "operator_of branch = BranchPythonOperator"
| "operator_of log_data_is_local = BashOperator"
| "operator_of log_data_is_remote = DummyOperator"
| "operator_of extract_data_from_s3 = PythonOperator"
| "operator_of compute_general_aggregats = PythonOperator"
| "operator_of compute_loan_aggregats = PythonOperator"
| "operator_of create_aggregats_table_if_needed = PostgresOperator"
| "operator_of store_aggregats = PostgresOperator"

datatype trigger_rule = ALL_SUCCESS | NONE_FAILED_MIN_ONE_SUCCESS

text \<open>Only \<^verbatim>\<open>compute_general_aggregats\<close> sets a trigger rule; the default is all-success.\<close>

fun trigger_rule_of :: "task \<Rightarrow> trigger_rule" where
  "trigger_rule_of compute_general_aggregats = NONE_FAILED_MIN_ONE_SUCCESS"
| "trigger_rule_of _ = ALL_SUCCESS"

text \<open>The dependencies set by the \<^verbatim>\<open>>>\<close> lines at the end of the module.\<close>

definition dag_edges :: "(task \<times> task) list" where
  "dag_edges =
     [(is_data_local, branch), (branch, log_data_is_local), (branch, log_data_is_remote),
      (log_data_is_remote, extract_data_from_s3),
      (log_data_is_local, compute_general_aggregats),
      (extract_data_from_s3, compute_general_aggregats),
      (compute_general_aggregats, compute_loan_aggregats),
      (compute_loan_aggregats, create_aggregats_table_if_needed),
      (create_aggregats_table_if_needed, store_aggregats)]"

definition upstream :: "task \<Rightarrow> task list" where
  "upstream t = map fst (filter (\<lambda>(a, b). b = t) dag_edges)"

definition downstream :: "task \<Rightarrow> task list" where
  "downstream t = map snd (filter (\<lambda>(a, b). a = t) dag_edges)"

text \<open>Every task reachable from the given ones in at most the given number of steps.\<close>

fun reach :: "nat \<Rightarrow> task list \<Rightarrow> task list" where
  "reach 0 ts = ts"
| "reach (Suc n) ts = reach n (remdups (ts @ concat (map downstream ts)))"

definition descendants :: "task \<Rightarrow> task list" where
  "descendants t = reach (length dag_tasks) (downstream t)"

subsection \<open>Running the operators\<close>

text \<open>
  What a run can read and change: the local files, the object store, the tables of
  the destination database, the values pushed so far, and the store's clock.
\<close>

record env =
  files :: filesystem
  objects :: object_store
  tables :: database
  xcom :: xcom_store
  clock :: nat

text \<open>
  An operator's \<^verbatim>\<open>execute\<close>: an error, or its return value and the environment
  it leaves. The keyword arguments are those the module passes.
\<close>

fun execute :: "task \<Rightarrow> env \<Rightarrow> error + (pyval \<times> env)" where
  "execute is_data_local e =
     Inr (PyNone, e\<lparr>xcom := p_is_data_local (task_id is_data_local) is_data_local_datapath
                              (files e) (xcom e)\<rparr>)"
| "execute branch e = Inr (PyStr (p_branch (xcom e)), e)"
| "execute log_data_is_local e = Inr (PyStr ''data is present locally'', e)"
| "execute log_data_is_remote e = Inr (PyNone, e)"
| "execute extract_data_from_s3 e =
     (case p_extract_from_s3 SOURCE_S3_KEY SOURCE_S3_BUCKET DEST_PATH_FILE (objects e) (files e) of
        Inl err \<Rightarrow> Inl err
      | Inr (file_name, fs) \<Rightarrow> Inr (PyStr file_name, e\<lparr>files := fs\<rparr>))"
| "execute compute_general_aggregats e =
     (case p_compute_general_aggregats (task_id compute_general_aggregats)
             compute_general_aggregats_datapath (files e) (xcom e) of
        Inl err \<Rightarrow> Inl err
      | Inr x \<Rightarrow> Inr (PyNone, e\<lparr>xcom := x\<rparr>))"
| "execute compute_loan_aggregats e =
     (case p_compute_loan_aggregats (task_id compute_loan_aggregats)
             compute_loan_aggregats_datapath (files e) (xcom e) of
        Inl err \<Rightarrow> Inl err
      | Inr x \<Rightarrow> Inr (PyNone, e\<lparr>xcom := x\<rparr>))"
| "execute create_aggregats_table_if_needed e =
     (case exec_sql (clock e) create_aggregats_table_sql (tables e) of
        Inl err \<Rightarrow> Inl err
      | Inr db \<Rightarrow> Inr (PyNone, e\<lparr>tables := db\<rparr>))"
| "execute store_aggregats e =
     (case exec_sql (clock e) (store_aggregats_sql (xcom e)) (tables e) of
        Inl err \<Rightarrow> Inl err
      | Inr db \<Rightarrow> Inr (PyNone, e\<lparr>tables := db\<rparr>))"

subsection \<open>Scheduling\<close>

datatype task_state = Success | Failed | Skipped | UpstreamFailed

datatype decision = NotReady | SetState task_state | Run

text \<open>
  The trigger rules over the states of the upstream tasks. With a failed or
  upstream-failed task upstream both rules mark the task upstream-failed without
  running it. All-success then skips the task when an upstream task was skipped;
  none-failed-min-one-success skips it only when no upstream task succeeded.
\<close>

definition evaluate_trigger_rule :: "trigger_rule \<Rightarrow> task_state option list \<Rightarrow> decision" where
  "evaluate_trigger_rule rule ups =
     (if None \<in> set ups then NotReady
      else if Some Failed \<in> set ups \<or> Some UpstreamFailed \<in> set ups
        then SetState UpstreamFailed
      else (case rule of
              ALL_SUCCESS \<Rightarrow> if Some Skipped \<in> set ups then SetState Skipped else Run
            | NONE_FAILED_MIN_ONE_SUCCESS \<Rightarrow>
                if Some Success \<in> set ups then Run else SetState Skipped))"

record dag_run =
  world :: env
  state :: "task \<Rightarrow> task_state option"
  raised :: "task \<rightharpoonup> error"

text \<open>
  The branch operator's \<^verbatim>\<open>skip_all_except\<close>: of the tasks directly downstream of the
  branch task, those that are neither the chosen task nor downstream of it are
  marked skipped.
\<close>

definition skip_all_except :: "task \<Rightarrow> string \<Rightarrow> dag_run \<Rightarrow> dag_run" where
  "skip_all_except t branch_task_id r =
     (let chosen = filter (\<lambda>d. task_id d = branch_task_id) dag_tasks;
          keep = chosen @ concat (map descendants chosen);
          skip_tasks = filter (\<lambda>d. d \<notin> set keep) (downstream t)
      in r\<lparr>state := (\<lambda>d. if d \<in> set skip_tasks then Some Skipped else state r d)\<rparr>)"

text \<open>A return value other than \<^verbatim>\<open>None\<close> is pushed under \<^verbatim>\<open>return_value\<close>.\<close>

definition push_return_value :: "task \<Rightarrow> pyval \<Rightarrow> env \<Rightarrow> env" where
  "push_return_value t v e =
     (if v = PyNone then e else e\<lparr>xcom := xcom_push (task_id t) ''return_value'' v (xcom e)\<rparr>)"

text \<open>
  One scheduling step for a task: a task that already has a state is left alone;
  otherwise its trigger rule decides whether it runs, and a task that runs ends in
  success or, when its operator raises, in failure.
\<close>

definition schedule :: "task \<Rightarrow> dag_run \<Rightarrow> dag_run" where
  "schedule t r =
     (case state r t of
        Some _ \<Rightarrow> r
      | None \<Rightarrow>
          (case evaluate_trigger_rule (trigger_rule_of t) (map (state r) (upstream t)) of
             NotReady \<Rightarrow> r
           | SetState s \<Rightarrow> r\<lparr>state := (state r)(t := Some s)\<rparr>
           | Run \<Rightarrow>
               (case execute t (world r) of
                  Inl err \<Rightarrow> r\<lparr>state := (state r)(t := Some Failed), raised := (raised r)(t \<mapsto> err)\<rparr>
                | Inr (v, e) \<Rightarrow>
                    (let r' = r\<lparr>world := push_return_value t v e,
                                state := (state r)(t := Some Success)\<rparr>
                     in (case (operator_of t, v) of
                           (BranchPythonOperator, PyStr b) \<Rightarrow> skip_all_except t b r'
                         | _ \<Rightarrow> r')))))"

text \<open>A run starts with no value pushed and takes the tasks in dependency order.\<close>

definition start :: "env \<Rightarrow> dag_run" where
  "start e = \<lparr>world = e\<lparr>xcom := Map.empty\<rparr>, state = (\<lambda>_. None), raised = Map.empty\<rparr>"

definition run_dag :: "env \<Rightarrow> dag_run" where
  "run_dag e = fold schedule dag_tasks (start e)"

text \<open>A run has failed when its last task failed or was not run for an upstream failure.\<close>

definition dagrun_failed :: "dag_run \<Rightarrow> bool" where
  "dagrun_failed r =
     list_ex (\<lambda>t. downstream t = [] \<and> (state r t = Some Failed \<or> state r t = Some UpstreamFailed))
       dag_tasks"

subsection \<open>What the aggregates are compared with\<close>

text \<open>
  The lines of a dataset file that are not the header, and the fields the header
  declares: blank lines do not count, the first line that is not blank is the header.
\<close>

definition data_lines :: "string \<Rightarrow> string list" where
  "data_lines text = (case csv_lines text of [] \<Rightarrow> [] | h # ds \<Rightarrow> ds)"

definition header_fields :: "string \<Rightarrow> string list" where
  "header_fields text = (case csv_lines text of [] \<Rightarrow> [] | h # ds \<Rightarrow> split_on CHR '','' h)"

text \<open>Writing a dataset file: fields joined by commas, every line ended by a line feed.\<close>

fun join_with :: "char \<Rightarrow> string list \<Rightarrow> string" where
  "join_with d [] = []"
| "join_with d [w] = w"
| "join_with d (w # v # ws) = w @ d # join_with d (v # ws)"

definition csv_text :: "string list \<Rightarrow> string list list \<Rightarrow> string" where
  "csv_text names recs = concat (map (\<lambda>r. join_with CHR '','' r @ [CHR 0x0A]) (names # recs))"

definition plain_field :: "string \<Rightarrow> bool" where
  "plain_field f = (CHR '','' \<notin> set f \<and> CHR 0x0A \<notin> set f)"

text \<open>A record that can be written on one line: some field, none with a comma or a
  line feed, and the line is not blank.\<close>

definition plain_record :: "string list \<Rightarrow> bool" where
  "plain_record r = (r \<noteq> [] \<and> list_all plain_field r \<and> join_with CHR '','' r \<noteq> [])"

text \<open>
  The grades the query tracks, each with the key of its mean; the rows of a data
  frame with a given grade; a row's loan amount; the arithmetic mean.
\<close>

definition tracked_grades :: "(string \<times> string) list" where
  "tracked_grades =
     [(''A'', ''mean_loan_a''), (''B'', ''mean_loan_b''), (''C'', ''mean_loan_c''),
      (''D'', ''mean_loan_d'')]"

definition grade_of :: "dataframe \<Rightarrow> cell list \<Rightarrow> cell" where
  "grade_of df r =
     (case index_of ''grade'' (df_columns df) of None \<Rightarrow> NaN | Some j \<Rightarrow> cell_at j r)"

definition loan_amount_of :: "dataframe \<Rightarrow> cell list \<Rightarrow> cell" where
  "loan_amount_of df r =
     (case index_of ''loan_amount'' (df_columns df) of None \<Rightarrow> NaN | Some i \<Rightarrow> cell_at i r)"

definition rows_with_grade :: "string \<Rightarrow> dataframe \<Rightarrow> cell list list" where
  "rows_with_grade g df = filter (\<lambda>r. grade_of df r = Str g) (df_rows df)"


definition amount :: "cell \<Rightarrow> rat" where
  "amount c = (case c of Num v \<Rightarrow> v | _ \<Rightarrow> 0)"


definition tracked_grade :: "cell \<Rightarrow> bool" where
  "tracked_grade c = (c \<in> set (map (\<lambda>(g, k). Str g) tracked_grades))"

subsection \<open>Example environments\<close>

definition example_csv :: string where
  "example_csv =
     ''id,loan_amount,grade'' @ [CHR 0x0A] @
     ''1,1000,A'' @ [CHR 0x0A] @
     ''2,2000,A'' @ [CHR 0x0A] @
     ''3,500,B'' @ [CHR 0x0A] @
     ''4,700,E'' @ [CHR 0x0A]"

text \<open>The dataset is in place; the destination database is empty.\<close>

definition local_env :: env where
  "local_env =
     \<lparr>files = [''/opt/airflow/data/raw-data'' \<mapsto> Dir,
               ''/opt/airflow/data/raw-data/loan_data_small.csv'' \<mapsto> File example_csv],
      objects = Map.empty, tables = Map.empty, xcom = Map.empty, clock = 7\<rparr>"

text \<open>The destination directory exists and is empty; the object store has the dataset.\<close>

definition dir_only_env :: env where
  "dir_only_env =
     \<lparr>files = [''/opt/airflow/data/raw-data'' \<mapsto> Dir],
      objects = [(''beranger-bucket-760254833251'', ''data/raw-data/loan_data_small.csv'')
                   \<mapsto> example_csv],
      tables = Map.empty, xcom = Map.empty, clock = 7\<rparr>"

text \<open>Nothing is local and the object store does not have the dataset.\<close>

definition remote_missing_env :: env where
  "remote_missing_env =
     \<lparr>files = Map.empty, objects = Map.empty, tables = Map.empty, xcom = Map.empty,
      clock = 7\<rparr>"

text \<open>A run in which the presence check has ended and nothing was pushed.\<close>

definition no_flag_run :: dag_run where
  "no_flag_run =
     \<lparr>world = remote_missing_env, state = (\<lambda>_. None)(is_data_local := Some Success),
      raised = Map.empty\<rparr>"

section \<open>Properties\<close>

subsection \<open>The wiring, evaluated\<close>

lemma upstream_simps:
  "upstream is_data_local = []"
  "upstream branch = [is_data_local]"
  "upstream log_data_is_local = [branch]"
  "upstream log_data_is_remote = [branch]"
  "upstream extract_data_from_s3 = [log_data_is_remote]"
  "upstream compute_general_aggregats = [log_data_is_local, extract_data_from_s3]"
  "upstream compute_loan_aggregats = [compute_general_aggregats]"
  "upstream create_aggregats_table_if_needed = [compute_loan_aggregats]"
  "upstream store_aggregats = [create_aggregats_table_if_needed]"
  by (simp_all add: upstream_def dag_edges_def)

lemma downstream_simps:
  "downstream is_data_local = [branch]"
  "downstream branch = [log_data_is_local, log_data_is_remote]"
  "downstream log_data_is_local = [compute_general_aggregats]"
  "downstream log_data_is_remote = [extract_data_from_s3]"
  "downstream extract_data_from_s3 = [compute_general_aggregats]"
  "downstream compute_general_aggregats = [compute_loan_aggregats]"
  "downstream compute_loan_aggregats = [create_aggregats_table_if_needed]"
  "downstream create_aggregats_table_if_needed = [store_aggregats]"
  "downstream store_aggregats = []"
  by (simp_all add: downstream_def dag_edges_def)

lemma run_dag_unfold:
  "run_dag e =
     schedule store_aggregats (schedule create_aggregats_table_if_needed
       (schedule compute_loan_aggregats (schedule compute_general_aggregats
         (schedule extract_data_from_s3 (schedule log_data_is_remote
           (schedule log_data_is_local (schedule branch (schedule is_data_local
             (start e)))))))))"
  by (simp add: run_dag_def dag_tasks_def)

lemma descendants_simps:
  "descendants log_data_is_local =
     [compute_general_aggregats, compute_loan_aggregats, create_aggregats_table_if_needed,
      store_aggregats]"
  "descendants log_data_is_remote =
     [extract_data_from_s3, compute_general_aggregats, compute_loan_aggregats,
      create_aggregats_table_if_needed, store_aggregats]"
  by (simp_all add: descendants_def dag_tasks_def downstream_simps eval_nat_numeral)

lemma skip_all_except_local:
  "skip_all_except branch ''log_data_is_local'' r =
     r\<lparr>state := (state r)(log_data_is_remote := Some Skipped)\<rparr>"
proof -
  have "(\<lambda>d. if d = log_data_is_remote then Some Skipped else state r d) =
        (state r)(log_data_is_remote := Some Skipped)"
    by (rule ext) simp
  then show ?thesis
    by (simp add: skip_all_except_def dag_tasks_def downstream_simps descendants_simps)
qed

lemma skip_all_except_remote:
  "skip_all_except branch ''log_data_is_remote'' r =
     r\<lparr>state := (state r)(log_data_is_local := Some Skipped)\<rparr>"
proof -
  have "(\<lambda>d. if d = log_data_is_local then Some Skipped else state r d) =
        (state r)(log_data_is_local := Some Skipped)"
    by (rule ext) simp
  then show ?thesis
    by (simp add: skip_all_except_def dag_tasks_def downstream_simps descendants_simps)
qed

subsection \<open>Frame lemmas for one scheduling step\<close>

text \<open>A task other than the branch changes no state but its own.\<close>

lemma schedule_state_other:
  assumes "operator_of t \<noteq> BranchPythonOperator" "u \<noteq> t"
  shows "state (schedule t r) u = state r u"
proof (cases "state r t")
  case (Some s)
  then show ?thesis by (simp add: schedule_def)
next
  case None
  show ?thesis
  proof (cases "evaluate_trigger_rule (trigger_rule_of t) (map (state r) (upstream t))")
    case NotReady
    with None show ?thesis by (simp add: schedule_def)
  next
    case (SetState s)
    with None assms show ?thesis by (simp add: schedule_def)
  next
    case Run
    show ?thesis
    proof (cases "execute t (world r)")
      case (Inl err)
      with None Run assms show ?thesis by (simp add: schedule_def)
    next
      case (Inr p)
      obtain v e where p: "p = (v, e)" by (cases p)
      from assms(1) have "(case (operator_of t, v) of
          (BranchPythonOperator, PyStr b) \<Rightarrow> skip_all_except t b r' | _ \<Rightarrow> r') = r'" for r'
        by (cases "operator_of t"; cases v) simp_all
      with None Run Inr p assms(2) show ?thesis by (simp add: schedule_def Let_def)
    qed
  qed
qed

subsection \<open>The run up to the two branches\<close>

lemma p_branch_flag:
  "x (''is_data_local'', ''is_local'') = Some (PyBool b) \<Longrightarrow>
   p_branch x = (if b then ''log_data_is_local'' else ''log_data_is_remote'')"
  by (simp add: p_branch_def xcom_pull_def)

lemma after_branch_true:
  assumes "os_path_exists (files e) DEST_PATH_FILE"
  shows "schedule branch (schedule is_data_local (start e)) =
    \<lparr>world = e\<lparr>xcom := [(''is_data_local'', ''is_local'') \<mapsto> PyBool True,
                          (''branch'', ''return_value'') \<mapsto> PyStr ''log_data_is_local'']\<rparr>,
     state = (\<lambda>_. None)(is_data_local := Some Success, branch := Some Success,
                          log_data_is_remote := Some Skipped),
     raised = Map.empty\<rparr>"
  using assms
  by (simp add: start_def schedule_def upstream_simps evaluate_trigger_rule_def
      p_is_data_local_def p_branch_flag push_return_value_def skip_all_except_local
      xcom_push_def is_data_local_datapath_def)

lemma after_branch_false:
  assumes "\<not> os_path_exists (files e) DEST_PATH_FILE"
  shows "schedule branch (schedule is_data_local (start e)) =
    \<lparr>world = e\<lparr>xcom := [(''is_data_local'', ''is_local'') \<mapsto> PyBool False,
                          (''branch'', ''return_value'') \<mapsto> PyStr ''log_data_is_remote'']\<rparr>,
     state = (\<lambda>_. None)(is_data_local := Some Success, branch := Some Success,
                          log_data_is_local := Some Skipped),
     raised = Map.empty\<rparr>"
  using assms
  by (simp add: start_def schedule_def upstream_simps evaluate_trigger_rule_def
      p_is_data_local_def p_branch_flag push_return_value_def skip_all_except_remote
      xcom_push_def is_data_local_datapath_def)

lemma after_logs_true:
  assumes "os_path_exists (files e) DEST_PATH_FILE"
  shows "schedule extract_data_from_s3 (schedule log_data_is_remote (schedule log_data_is_local
           (schedule branch (schedule is_data_local (start e))))) =
    \<lparr>world = e\<lparr>xcom := [(''is_data_local'', ''is_local'') \<mapsto> PyBool True,
                          (''branch'', ''return_value'') \<mapsto> PyStr ''log_data_is_local'',
                          (''log_data_is_local'', ''return_value'') \<mapsto>
                             PyStr ''data is present locally'']\<rparr>,
     state = (\<lambda>_. None)(is_data_local := Some Success, branch := Some Success,
                          log_data_is_remote := Some Skipped, log_data_is_local := Some Success,
                          extract_data_from_s3 := Some Skipped),
     raised = Map.empty\<rparr>"
  unfolding after_branch_true[OF assms]
  by (simp add: schedule_def upstream_simps evaluate_trigger_rule_def
      push_return_value_def xcom_push_def)

lemma after_logs_false:
  assumes "\<not> os_path_exists (files e) DEST_PATH_FILE"
  shows "schedule log_data_is_remote (schedule log_data_is_local
           (schedule branch (schedule is_data_local (start e)))) =
    \<lparr>world = e\<lparr>xcom := [(''is_data_local'', ''is_local'') \<mapsto> PyBool False,
                          (''branch'', ''return_value'') \<mapsto> PyStr ''log_data_is_remote'']\<rparr>,
     state = (\<lambda>_. None)(is_data_local := Some Success, branch := Some Success,
                          log_data_is_local := Some Skipped, log_data_is_remote := Some Success),
     raised = Map.empty\<rparr>"
  unfolding after_branch_false[OF assms]
  by (simp add: schedule_def upstream_simps evaluate_trigger_rule_def
      push_return_value_def xcom_push_def)

text \<open>The states of the two branch heads are settled once both have been scheduled.\<close>

lemma state_branch_heads:
  assumes "u = log_data_is_local \<or> u = log_data_is_remote"
  shows "state (run_dag e) u =
         state (schedule log_data_is_remote (schedule log_data_is_local
                  (schedule branch (schedule is_data_local (start e))))) u"
  using assms unfolding run_dag_unfold
  by (auto simp: schedule_state_other)

lemma branch_heads_states:
  "state (run_dag e) log_data_is_local =
     Some (if os_path_exists (files e) DEST_PATH_FILE then Success else Skipped)"
  "state (run_dag e) log_data_is_remote =
     Some (if os_path_exists (files e) DEST_PATH_FILE then Skipped else Success)"
proof -
  let ?r4 = "schedule log_data_is_remote (schedule log_data_is_local
               (schedule branch (schedule is_data_local (start e))))"
  have heads: "state ?r4 log_data_is_local =
        Some (if os_path_exists (files e) DEST_PATH_FILE then Success else Skipped)
      \<and> state ?r4 log_data_is_remote =
        Some (if os_path_exists (files e) DEST_PATH_FILE then Skipped else Success)"
  proof (cases "os_path_exists (files e) DEST_PATH_FILE")
    case True
    have "state ?r4 u = state (schedule extract_data_from_s3 ?r4) u"
      if "u \<noteq> extract_data_from_s3" for u
      using that by (simp add: schedule_state_other)
    then show ?thesis using True by (simp add: after_logs_true)
  next
    case False
    then show ?thesis by (simp add: after_logs_false)
  qed
  show "state (run_dag e) log_data_is_local =
     Some (if os_path_exists (files e) DEST_PATH_FILE then Success else Skipped)"
    using heads by (simp add: state_branch_heads)
  show "state (run_dag e) log_data_is_remote =
     Some (if os_path_exists (files e) DEST_PATH_FILE then Skipped else Success)"
    using heads by (simp add: state_branch_heads)
qed

subsection \<open>The run when the fetch is reached\<close>

lemma state_extract:
  "state (run_dag e) extract_data_from_s3 =
   state (schedule extract_data_from_s3 (schedule log_data_is_remote (schedule log_data_is_local
            (schedule branch (schedule is_data_local (start e)))))) extract_data_from_s3"
  unfolding run_dag_unfold by (simp add: schedule_state_other)

lemma extract_skipped_when_local:
  assumes "os_path_exists (files e) DEST_PATH_FILE"
  shows "state (run_dag e) extract_data_from_s3 = Some Skipped"
  unfolding state_extract after_logs_true[OF assms] by simp

lemma extract_success:
  assumes "\<not> os_path_exists (files e) DEST_PATH_FILE"
    and "p_extract_from_s3 SOURCE_S3_KEY SOURCE_S3_BUCKET DEST_PATH_FILE (objects e) (files e)
         = Inr p"
  shows "state (run_dag e) extract_data_from_s3 = Some Success"
  unfolding state_extract after_logs_false[OF assms(1)] using assms(2)
  by (cases p) (simp add: schedule_def upstream_simps evaluate_trigger_rule_def)

lemma run_fetch_failed:
  assumes "\<not> os_path_exists (files e) DEST_PATH_FILE"
    and "p_extract_from_s3 SOURCE_S3_KEY SOURCE_S3_BUCKET DEST_PATH_FILE (objects e) (files e)
         = Inl err"
  shows "run_dag e =
    \<lparr>world = e\<lparr>xcom := [(''is_data_local'', ''is_local'') \<mapsto> PyBool False,
                          (''branch'', ''return_value'') \<mapsto> PyStr ''log_data_is_remote'']\<rparr>,
     state = (\<lambda>_. None)(is_data_local := Some Success, branch := Some Success,
                          log_data_is_local := Some Skipped, log_data_is_remote := Some Success,
                          extract_data_from_s3 := Some Failed,
                          compute_general_aggregats := Some UpstreamFailed,
                          compute_loan_aggregats := Some UpstreamFailed,
                          create_aggregats_table_if_needed := Some UpstreamFailed,
                          store_aggregats := Some UpstreamFailed),
     raised = [extract_data_from_s3 \<mapsto> err]\<rparr>"
  unfolding run_dag_unfold after_logs_false[OF assms(1)] using assms(2)
  by (simp add: schedule_def upstream_simps evaluate_trigger_rule_def)

lemma dagrun_failed_iff:
  "dagrun_failed r \<longleftrightarrow>
     state r store_aggregats = Some Failed \<or> state r store_aggregats = Some UpstreamFailed"
  by (simp add: dagrun_failed_def dag_tasks_def downstream_simps)

subsection \<open>The example dataset, evaluated\<close>

lemma example_lines:
  "csv_lines example_csv =
     [''id,loan_amount,grade'', ''1,1000,A'', ''2,2000,A'', ''3,500,B'', ''4,700,E'']"
  by (simp add: csv_lines_def example_csv_def)

lemma example_cells:
  "parse_cell ''1'' = Num 1" "parse_cell ''2'' = Num 2"
  "parse_cell ''3'' = Num 3" "parse_cell ''4'' = Num 4"
  "parse_cell ''1000'' = Num 1000" "parse_cell ''2000'' = Num 2000"
  "parse_cell ''500'' = Num 500" "parse_cell ''700'' = Num 700"
  "parse_cell ''A'' = Str ''A''" "parse_cell ''B'' = Str ''B''" "parse_cell ''E'' = Str ''E''"
  by (simp_all add: parse_cell_def na_values_def number_val_def unsigned_val_def digit_val_def)

lemma example_df:
  "read_csv_text example_csv =
     Inr \<lparr>df_columns = [''id'', ''loan_amount'', ''grade''],
          df_rows = [[Num 1, Num 1000, Str ''A''], [Num 2, Num 2000, Str ''A''],
                     [Num 3, Num 500, Str ''B''], [Num 4, Num 700, Str ''E'']]\<rparr>"
  by (simp add: read_csv_text_def example_lines pad_def example_cells)

lemma example_query:
  "loan_query \<lparr>df_columns = [''id'', ''loan_amount'', ''grade''],
          df_rows = [[Num 1, Num 1000, Str ''A''], [Num 2, Num 2000, Str ''A''],
                     [Num 3, Num 500, Str ''B''], [Num 4, Num 700, Str ''E'']]\<rparr> =
   Inr [(''mean_loan_a'', PyNum 1500), (''mean_loan_b'', PyNum 500),
        (''mean_loan_c'', PyNone), (''mean_loan_d'', PyNone)]"
  by (simp add: loan_query_def avg_loan_amount_where_grade_def cell_at_def sql_avg_def
      List.map_filter_simps)

lemma local_env_simps:
  "os_path_exists (files local_env) DEST_PATH_FILE"
  "files local_env (os_path_join DEST_PATH_FILE ''loan_data_small.csv'') = Some (File example_csv)"
  "tables local_env = Map.empty"
  "clock local_env = 7"
  by (simp_all add: local_env_def os_path_exists_def DEST_PATH_FILE_def os_path_join_def)

lemma dir_only_env_simps:
  "os_path_exists (files dir_only_env) DEST_PATH_FILE"
  "files dir_only_env (os_path_join DEST_PATH_FILE ''loan_data_small.csv'') = None"
  "tables dir_only_env = Map.empty"
  by (simp_all add: dir_only_env_def os_path_exists_def DEST_PATH_FILE_def os_path_join_def)

subsection \<open>Two concrete runs\<close>

lemma local_run:
  "state (run_dag local_env) compute_general_aggregats = Some Success
   \<and> state (run_dag local_env) compute_loan_aggregats = Some Success
   \<and> state (run_dag local_env) create_aggregats_table_if_needed = Some Success
   \<and> state (run_dag local_env) store_aggregats = Some Failed
   \<and> raised (run_dag local_env) store_aggregats = Some UndefinedTable
   \<and> tables (world (run_dag local_env)) ''aggregats_loans_table'' =
        Some \<lparr>tbl_columns = summary_columns, tbl_rows = []\<rparr>
   \<and> tables (world (run_dag local_env)) ''aggregats_loans_tabble'' = None"
  unfolding run_dag_unfold after_logs_true[OF local_env_simps(1)]
  by (simp add: schedule_def upstream_simps evaluate_trigger_rule_def push_return_value_def
      p_compute_general_aggregats_def p_compute_loan_aggregats_def pd_read_csv_def local_env_simps
      example_df example_query shape_def xcom_push_def create_aggregats_table_sql_def
      store_aggregats_sql_def compute_general_aggregats_datapath_def
      compute_loan_aggregats_datapath_def)

lemma dir_only_run:
  "xcom (world (run_dag dir_only_env)) (''is_data_local'', ''is_local'') = Some (PyBool True)
   \<and> state (run_dag dir_only_env) log_data_is_local = Some Success
   \<and> state (run_dag dir_only_env) extract_data_from_s3 = Some Skipped
   \<and> state (run_dag dir_only_env) compute_general_aggregats = Some Failed
   \<and> raised (run_dag dir_only_env) compute_general_aggregats = Some FileNotFoundError"
  unfolding run_dag_unfold after_logs_true[OF dir_only_env_simps(1)]
  by (simp add: schedule_def upstream_simps evaluate_trigger_rule_def push_return_value_def
      p_compute_general_aggregats_def pd_read_csv_def dir_only_env_simps
      compute_general_aggregats_datapath_def)

subsection \<open>The create statement\<close>

lemma create_result:
  "exec_sql now create_aggregats_table_sql db =
     Inr (case db ''aggregats_loans_table'' of
            None \<Rightarrow> db(''aggregats_loans_table'' \<mapsto> \<lparr>tbl_columns = summary_columns, tbl_rows = []\<rparr>)
          | Some _ \<Rightarrow> db)"
  by (simp add: create_aggregats_table_sql_def split: option.splits)

lemma create_again:
  "db ''aggregats_loans_table'' = Some t \<Longrightarrow>
   exec_times n now create_aggregats_table_sql db = Inr db"
  by (induction n) (simp_all add: create_result)

subsection \<open>Splitting and joining\<close>

lemma split_on_clean: "d \<notin> set w \<Longrightarrow> split_on d w = [w]"
  by (induction w) auto

lemma split_on_append: "d \<notin> set w \<Longrightarrow> split_on d (w @ d # rest) = w # split_on d rest"
  by (induction w) auto

lemma split_join:
  "ws \<noteq> [] \<Longrightarrow> \<forall>f\<in>set ws. d \<notin> set f \<Longrightarrow> split_on d (join_with d ws) = ws"
proof (induction d ws rule: join_with.induct)
  case (1 d)
  then show ?case by simp
next
  case (2 d w)
  then show ?case by (simp add: split_on_clean)
next
  case (3 d w v ws)
  then show ?case by (simp add: split_on_append)
qed

lemma set_join_with: "set (join_with d ws) \<subseteq> insert d (\<Union>f\<in>set ws. set f)"
  by (induction d ws rule: join_with.induct) auto

lemma split_lines:
  "\<forall>l\<in>set ls. nl \<notin> set l \<Longrightarrow> split_on nl (concat (map (\<lambda>l. l @ [nl]) ls)) = ls @ [[]]"
  by (induction ls) (simp_all add: split_on_append)

lemma plain_record_split:
  "plain_record r \<Longrightarrow> split_on CHR '','' (join_with CHR '','' r) = r"
  by (rule split_join) (auto simp: plain_record_def plain_field_def list_all_iff)

lemma plain_record_line:
  assumes "plain_record r"
  shows "CHR 0x0A \<notin> set (join_with CHR '','' r)" and "join_with CHR '','' r \<noteq> []"
proof -
  have "set (join_with CHR '','' r) \<subseteq> insert CHR '','' (\<Union>f\<in>set r. set f)"
    by (rule set_join_with)
  moreover have "CHR 0x0A \<notin> (\<Union>f\<in>set r. set f)"
    using assms by (auto simp: plain_record_def plain_field_def list_all_iff)
  ultimately show "CHR 0x0A \<notin> set (join_with CHR '','' r)" by auto
  show "join_with CHR '','' r \<noteq> []"
    using assms by (simp add: plain_record_def)
qed

text \<open>A file written from plain records reads back as its lines.\<close>

lemma csv_lines_csv_text:
  assumes "list_all plain_record (names # recs)"
  shows "csv_lines (csv_text names recs) = map (join_with CHR '','') (names # recs)"
proof -
  let ?ls = "map (join_with CHR '','') (names # recs)"
  have clean: "\<forall>l\<in>set ?ls. CHR 0x0A \<notin> set l"
    using assms plain_record_line(1) by (auto simp: list_all_iff)
  have nonblank: "\<forall>l\<in>set ?ls. l \<noteq> []"
    using assms plain_record_line(2) by (auto simp: list_all_iff)
  have "csv_text names recs = concat (map (\<lambda>l. l @ [CHR 0x0A]) ?ls)"
    by (simp add: csv_text_def comp_def)
  then have "split_on CHR 0x0A (csv_text names recs) = ?ls @ [[]]"
    using split_lines [OF clean] by simp
  moreover have "filter (\<lambda>l. l \<noteq> []) ?ls = ?ls"
    using nonblank by (simp only: filter_id_conv) 
  ultimately show ?thesis
    by (simp only: csv_lines_def filter_append) simp
qed

lemma read_written:
  assumes "list_all plain_record (names # recs)"
    and "list_all (\<lambda>r. length r \<le> length names) recs"
  shows "read_csv_text (csv_text names recs) =
           Inr \<lparr>df_columns = names,
                df_rows = map (\<lambda>r. pad (length names) (map parse_cell r)) recs\<rparr>"
proof -
  have names: "split_on CHR '','' (join_with CHR '','' names) = names"
    using assms(1) by (simp add: plain_record_split)
  have recs: "map (split_on CHR '','') (map (join_with CHR '','') recs) = recs"
    using assms(1) by (simp add: plain_record_split list_all_iff map_idI)
  have k: "(case recs of [] \<Rightarrow> 0 | r # _ \<Rightarrow> length r - length names) = 0"
    using assms(2) by (cases recs) simp_all
  have fits: "\<not> list_ex (\<lambda>r. length names < length r) recs"
    using assms(2) by (auto simp: list_all_iff list_ex_iff)
  show ?thesis
    unfolding read_csv_text_def csv_lines_csv_text [OF assms(1)]
    using fits by (simp add: names recs k del: map_map)
qed

text \<open>
  So the lines and fields counted in a written file are the records and the names
  it was written from.
\<close>

lemma written_file_counts:
  assumes "list_all plain_record (names # recs)"
    and "list_all (\<lambda>r. length r \<le> length names) recs"
  shows "length (data_lines (csv_text names recs)) = length recs"
    and "header_fields (csv_text names recs) = names"
    and "\<exists>df. read_csv_text (csv_text names recs) = Inr df
           \<and> shape df = (length recs, length names)"
proof -
  show "length (data_lines (csv_text names recs)) = length recs"
    by (simp add: data_lines_def csv_lines_csv_text [OF assms(1)])
  show "header_fields (csv_text names recs) = names"
    using assms(1) by (simp add: header_fields_def csv_lines_csv_text [OF assms(1)]
        plain_record_split)
  show "\<exists>df. read_csv_text (csv_text names recs) = Inr df
           \<and> shape df = (length recs, length names)"
    by (simp add: read_written [OF assms] shape_def)
qed

subsection \<open>The query\<close>



lemma avg_where_grade:
  assumes "index_of ''loan_amount'' (df_columns df) = Some i"
    and "index_of ''grade'' (df_columns df) = Some j"
  shows "avg_loan_amount_where_grade g df =
           Inr (sql_avg (map (loan_amount_of df) (rows_with_grade g df)))"
  using assms
  by (simp add: avg_loan_amount_where_grade_def rows_with_grade_def grade_of_def
      loan_amount_of_def cong: map_cong)

lemma loan_query_missing_column:
  assumes "index_of ''loan_amount'' (df_columns df) = None
           \<or> index_of ''grade'' (df_columns df) = None"
  shows "loan_query df = Inl PandaSQLException"
proof -
  have "avg_loan_amount_where_grade g df = Inl PandaSQLException" for g
    using assms by (auto simp: avg_loan_amount_where_grade_def split: option.splits)
  then show ?thesis by (simp add: loan_query_def)
qed

lemma loan_query_result:
  assumes "index_of ''loan_amount'' (df_columns df) = Some i"
    and "index_of ''grade'' (df_columns df) = Some j"
  shows "loan_query df =
     Inr (map (\<lambda>(g, k). (k, to_pyval (sql_avg (map (loan_amount_of df) (rows_with_grade g df)))))
            tracked_grades)"
  by (simp add: loan_query_def avg_where_grade [OF assms] tracked_grades_def)

text \<open>Only the rows with a tracked grade matter to the rows of one tracked grade.\<close>

lemma rows_with_grade_tracked:
  assumes "(g, k) \<in> set tracked_grades"
  shows "rows_with_grade g (df\<lparr>df_rows := rs\<rparr>) =
         filter (\<lambda>r. grade_of df r = Str g) (filter (\<lambda>r. tracked_grade (grade_of df r)) rs)"
proof -
  have "tracked_grade (Str g)"
    using assms by (force simp: tracked_grade_def)
  then have "(tracked_grade (grade_of df r) \<and> grade_of df r = Str g) = (grade_of df r = Str g)"
    for r by auto
  then show ?thesis
    by (simp add: rows_with_grade_def grade_of_def)
qed



subsection \<open>The branch\<close>

text \<open>
  C2. For either value of the presence flag the branch callable returns the id of
  exactly one of the two tasks downstream of the branch: the local one for true, the
  remote one for false; the two ids differ. In every run, of the two tasks one ends
  in success and the other is skipped, according to the flag the presence check
  pushed.
\<close>

theorem branch_selects_exactly_one:
  "p_branch (xcom_push (task_id is_data_local) ''is_local'' (PyBool flag) x) =
     (if flag then task_id log_data_is_local else task_id log_data_is_remote)
   \<and> task_id log_data_is_local \<noteq> task_id log_data_is_remote
   \<and> downstream branch = [log_data_is_local, log_data_is_remote]
   \<and> state (run_dag e) log_data_is_local =
       Some (if os_path_exists (files e) DEST_PATH_FILE then Success else Skipped)
   \<and> state (run_dag e) log_data_is_remote =
       Some (if os_path_exists (files e) DEST_PATH_FILE then Skipped else Success)"
  by (simp add: p_branch_flag xcom_push_def downstream_simps branch_heads_states)

theorem branch_selects_exactly_one_witness:
  "p_branch (xcom_push ''is_data_local'' ''is_local'' (PyBool True) Map.empty) =
     ''log_data_is_local''
   \<and> state (run_dag local_env) log_data_is_local = Some Success
   \<and> state (run_dag local_env) log_data_is_remote = Some Skipped
   \<and> state (run_dag remote_missing_env) log_data_is_local = Some Skipped
   \<and> state (run_dag remote_missing_env) log_data_is_remote = Some Success"
  using branch_selects_exactly_one [of True Map.empty local_env]
    branch_selects_exactly_one [of True Map.empty remote_missing_env]
  by (simp add: local_env_def remote_missing_env_def os_path_exists_def DEST_PATH_FILE_def)

text \<open>
  C3, as stated, fails: when nothing was pushed under the flag's key the pull yields
  \<^verbatim>\<open>None\<close>, the callable returns the remote task's id, the branch task succeeds
  without raising, the local task is skipped and the remote task runs.
\<close>

theorem branch_missing_flag_counterexample:
  "xcom_pull (xcom (world no_flag_run)) ''is_local'' ''is_data_local'' = PyNone
   \<and> p_branch (xcom (world no_flag_run)) = ''log_data_is_remote''
   \<and> execute branch (world no_flag_run) = Inr (PyStr ''log_data_is_remote'', world no_flag_run)
   \<and> state (schedule branch no_flag_run) branch = Some Success
   \<and> raised (schedule branch no_flag_run) branch = None
   \<and> state (schedule branch no_flag_run) log_data_is_local = Some Skipped
   \<and> state (schedule log_data_is_remote (schedule branch no_flag_run)) log_data_is_remote
       = Some Success"
  by (simp add: no_flag_run_def remote_missing_env_def p_branch_def xcom_pull_def schedule_def
      upstream_simps evaluate_trigger_rule_def push_return_value_def xcom_push_def
      skip_all_except_remote)

text \<open>
  C3, amended. Whenever the pulled flag is anything but the boolean true (missing
  included) the branch operator does not raise: it returns the remote task's id and
  changes nothing.
\<close>

theorem branch_not_true_selects_remote:
  assumes "xcom_pull (xcom e) ''is_local'' ''is_data_local'' \<noteq> PyBool True"
  shows "execute branch e = Inr (PyStr (task_id log_data_is_remote), e)"
  using assms by (simp add: p_branch_def)

theorem branch_not_true_selects_remote_witness:
  "xcom_pull (xcom remote_missing_env) ''is_local'' ''is_data_local'' \<noteq> PyBool True
   \<and> execute branch remote_missing_env = Inr (PyStr ''log_data_is_remote'', remote_missing_env)"
proof -
  have h: "xcom_pull (xcom remote_missing_env) ''is_local'' ''is_data_local'' \<noteq> PyBool True"
    by (simp add: remote_missing_env_def xcom_pull_def)
  show ?thesis using h branch_not_true_selects_remote [OF h] by simp
qed

subsection \<open>A failed fetch\<close>

text \<open>
  C9. In every run in which the fetch task fails, the presence check had found
  nothing at the local path, both aggregators and both store tasks end
  upstream-failed without running, nothing is pushed by an aggregator, the tables
  of the store are those the run started with, the fetch is the only task that
  raised, and the run has failed.
\<close>

theorem fetch_failure_stops_run:
  assumes "state (run_dag e) extract_data_from_s3 = Some Failed"
  shows "\<not> os_path_exists (files e) DEST_PATH_FILE
       \<and> state (run_dag e) compute_general_aggregats = Some UpstreamFailed
       \<and> state (run_dag e) compute_loan_aggregats = Some UpstreamFailed
       \<and> state (run_dag e) create_aggregats_table_if_needed = Some UpstreamFailed
       \<and> state (run_dag e) store_aggregats = Some UpstreamFailed
       \<and> xcom (world (run_dag e)) (''compute_general_aggregats'', ''nb_lines'') = None
       \<and> xcom (world (run_dag e)) (''compute_loan_aggregats'', ''mean_loan_a'') = None
       \<and> tables (world (run_dag e)) = tables e
       \<and> (\<exists>err. raised (run_dag e) = [extract_data_from_s3 \<mapsto> err])
       \<and> dagrun_failed (run_dag e)"
proof -
  have absent: "\<not> os_path_exists (files e) DEST_PATH_FILE"
    using assms extract_skipped_when_local [of e] by auto
  obtain err where
    "p_extract_from_s3 SOURCE_S3_KEY SOURCE_S3_BUCKET DEST_PATH_FILE (objects e) (files e)
     = Inl err"
    using assms extract_success [OF absent]
    by (cases "p_extract_from_s3 SOURCE_S3_KEY SOURCE_S3_BUCKET DEST_PATH_FILE
                 (objects e) (files e)") auto
  then have run: "run_dag e = 
    \<lparr>world = e\<lparr>xcom := [(''is_data_local'', ''is_local'') \<mapsto> PyBool False,
                          (''branch'', ''return_value'') \<mapsto> PyStr ''log_data_is_remote'']\<rparr>,
     state = (\<lambda>_. None)(is_data_local := Some Success, branch := Some Success,
                          log_data_is_local := Some Skipped, log_data_is_remote := Some Success,
                          extract_data_from_s3 := Some Failed,
                          compute_general_aggregats := Some UpstreamFailed,
                          compute_loan_aggregats := Some UpstreamFailed,
                          create_aggregats_table_if_needed := Some UpstreamFailed,
                          store_aggregats := Some UpstreamFailed),
     raised = [extract_data_from_s3 \<mapsto> err]\<rparr>"
    by (rule run_fetch_failed [OF absent])
  have only: "\<exists>err'. raised (run_dag e) = [extract_data_from_s3 \<mapsto> err']"
    by (rule exI [of _ err]) (simp add: run)
  show ?thesis
    unfolding dagrun_failed_iff using absent only by (simp add: run)
qed

theorem fetch_failure_stops_run_witness:
  "state (run_dag remote_missing_env) extract_data_from_s3 = Some Failed
   \<and> state (run_dag remote_missing_env) compute_general_aggregats = Some UpstreamFailed
   \<and> state (run_dag remote_missing_env) compute_loan_aggregats = Some UpstreamFailed
   \<and> state (run_dag remote_missing_env) store_aggregats = Some UpstreamFailed
   \<and> tables (world (run_dag remote_missing_env)) = Map.empty
   \<and> dagrun_failed (run_dag remote_missing_env)"
proof -
  have absent: "\<not> os_path_exists (files remote_missing_env) DEST_PATH_FILE"
    by (simp add: remote_missing_env_def os_path_exists_def)
  have "p_extract_from_s3 SOURCE_S3_KEY SOURCE_S3_BUCKET DEST_PATH_FILE
          (objects remote_missing_env) (files remote_missing_env) = Inl AirflowException"
    by (simp add: remote_missing_env_def p_extract_from_s3_def)
  then have h: "state (run_dag remote_missing_env) extract_data_from_s3 = Some Failed"
    by (simp add: run_fetch_failed [OF absent])
  have t: "tables remote_missing_env = Map.empty"
    by (simp add: remote_missing_env_def)
  show ?thesis using h fetch_failure_stops_run [OF h] t by simp
qed

subsection \<open>The store\<close>

text \<open>
  C1. The insert statement names the table \<^verbatim>\<open>aggregats_loans_tabble\<close>, the create
  statement \<^verbatim>\<open>aggregats_loans_table\<close>: the names differ. In the run on the example
  environment (dataset in place, empty database) the create task succeeds, the
  store task fails on an undefined table, and the created table holds no row.
\<close>

theorem insert_target_differs_from_created:
  "target_table (store_aggregats_sql x) = ''aggregats_loans_tabble''
   \<and> target_table create_aggregats_table_sql = ''aggregats_loans_table''
   \<and> target_table (store_aggregats_sql x) \<noteq> target_table create_aggregats_table_sql
   \<and> state (run_dag local_env) create_aggregats_table_if_needed = Some Success
   \<and> state (run_dag local_env) store_aggregats = Some Failed
   \<and> raised (run_dag local_env) store_aggregats = Some UndefinedTable
   \<and> tables (world (run_dag local_env)) ''aggregats_loans_table'' =
        Some \<lparr>tbl_columns = summary_columns, tbl_rows = []\<rparr>"
  using local_run by (simp add: store_aggregats_sql_def create_aggregats_table_sql_def)

text \<open>
  C8. Whatever the store holds, the create statement raises nothing; running it any
  number of times in a row gives the store that running it once gives; that store
  has the tables it had and the summary table, every other table as it was; when the
  summary table was absent it is created empty with the seven declared columns, and
  when it was present the store is unchanged.
\<close>

theorem ensure_schema_idempotent:
  "\<exists>db'. exec_sql now create_aggregats_table_sql db = Inr db'
     \<and> exec_times (Suc n) now create_aggregats_table_sql db = Inr db'
     \<and> dom db' = insert ''aggregats_loans_table'' (dom db)
     \<and> (\<forall>name. name \<noteq> ''aggregats_loans_table'' \<longrightarrow> db' name = db name)
     \<and> (case db ''aggregats_loans_table'' of
          None \<Rightarrow> db' ''aggregats_loans_table'' =
                    Some \<lparr>tbl_columns = summary_columns, tbl_rows = []\<rparr>
        | Some t \<Rightarrow> db' = db)
     \<and> length summary_columns = 7"
proof (cases "db ''aggregats_loans_table''")
  case None
  let ?db' = "db(''aggregats_loans_table'' \<mapsto> \<lparr>tbl_columns = summary_columns, tbl_rows = []\<rparr>)"
  have once: "exec_sql now create_aggregats_table_sql db = Inr ?db'"
    using None by (simp add: create_result)
  have "exec_times n now create_aggregats_table_sql ?db' = Inr ?db'"
    by (rule create_again [where t = "\<lparr>tbl_columns = summary_columns, tbl_rows = []\<rparr>"]) simp
  then have many: "exec_times (Suc n) now create_aggregats_table_sql db = Inr ?db'"
    by (simp add: once)
  show ?thesis
    using None once many by (auto simp: summary_columns_def)
next
  case (Some t)
  have once: "exec_sql now create_aggregats_table_sql db = Inr db"
    using Some by (simp add: create_result)
  have many: "exec_times (Suc n) now create_aggregats_table_sql db = Inr db"
    using Some by (simp add: once create_again [where db = db and t = t])
  show ?thesis
    using Some once many by (auto simp: summary_columns_def)
qed

theorem ensure_schema_idempotent_witness:
  "exec_times 2 7 create_aggregats_table_sql Map.empty =
     exec_sql 7 create_aggregats_table_sql Map.empty
   \<and> (\<exists>db'. exec_times 2 7 create_aggregats_table_sql Map.empty = Inr db'
         \<and> dom db' = {''aggregats_loans_table''}
         \<and> db' ''aggregats_loans_table'' = Some \<lparr>tbl_columns = summary_columns, tbl_rows = []\<rparr>)"
proof -
  obtain db' where
    a: "exec_sql 7 create_aggregats_table_sql Map.empty = Inr db'" and
    b: "exec_times (Suc 1) 7 create_aggregats_table_sql Map.empty = Inr db'" and
    c: "dom db' = insert ''aggregats_loans_table'' (dom (Map.empty :: database))" and
    d: "case (Map.empty :: database) ''aggregats_loans_table'' of
          None \<Rightarrow> db' ''aggregats_loans_table'' =
                    Some \<lparr>tbl_columns = summary_columns, tbl_rows = []\<rparr>
        | Some t \<Rightarrow> db' = Map.empty"
    using ensure_schema_idempotent [of 7 Map.empty 1] by blast
  have two: "(2::nat) = Suc 1" by simp
  show ?thesis
    unfolding two using a b c d by simp
qed

subsection \<open>The presence check\<close>

text \<open>
  C4. The presence check is given the destination directory, not the dataset file.
  On the example environment whose directory exists and is empty the check pushes
  true although the file the aggregators read is absent; the run takes the local
  branch, skips the fetch, and the general aggregator fails for want of the file.
\<close>

theorem presence_check_tests_directory:
  "is_data_local_datapath = ''/opt/airflow/data/raw-data''
   \<and> p_is_data_local ''is_data_local'' is_data_local_datapath (files dir_only_env) Map.empty
        (''is_data_local'', ''is_local'') = Some (PyBool True)
   \<and> \<not> os_path_exists (files dir_only_env) compute_general_aggregats_datapath
   \<and> xcom (world (run_dag dir_only_env)) (''is_data_local'', ''is_local'') = Some (PyBool True)
   \<and> state (run_dag dir_only_env) log_data_is_local = Some Success
   \<and> state (run_dag dir_only_env) extract_data_from_s3 = Some Skipped
   \<and> state (run_dag dir_only_env) compute_general_aggregats = Some Failed
   \<and> raised (run_dag dir_only_env) compute_general_aggregats = Some FileNotFoundError"
  using dir_only_run dir_only_env_simps
  by (simp add: is_data_local_datapath_def compute_general_aggregats_datapath_def
      p_is_data_local_def xcom_push_def os_path_exists_def DEST_PATH_FILE_def)

subsection \<open>The general aggregates\<close>



subsection \<open>The loan aggregates\<close>



text \<open>
  C7. Two lists of rows that agree once the rows with a grade outside the four are
  dropped give the same result of the query, for the same columns; so adding or
  removing such rows, anywhere, changes none of the four outputs.
\<close>

theorem untracked_grades_ignored:
  assumes "filter (\<lambda>r. tracked_grade (grade_of df r)) rows1 =
           filter (\<lambda>r. tracked_grade (grade_of df r)) rows2"
  shows "loan_query (df\<lparr>df_rows := rows1\<rparr>) = loan_query (df\<lparr>df_rows := rows2\<rparr>)"
proof (cases "index_of ''loan_amount'' (df_columns df) = None
              \<or> index_of ''grade'' (df_columns df) = None")
  case True
  then show ?thesis by (simp add: loan_query_missing_column)
next
  case False
  then obtain i j where ij: "index_of ''loan_amount'' (df_columns df) = Some i"
    "index_of ''grade'' (df_columns df) = Some j"
    by auto
  have same: "rows_with_grade g (df\<lparr>df_rows := rows1\<rparr>) = rows_with_grade g (df\<lparr>df_rows := rows2\<rparr>)"
    if "(g, k) \<in> set tracked_grades" for g k
    using that assms by (simp add: rows_with_grade_tracked)
  have amount: "loan_amount_of (df\<lparr>df_rows := rs\<rparr>) = loan_amount_of df" for rs
    by (rule ext) (simp add: loan_amount_of_def)
  have "loan_query (df\<lparr>df_rows := rs\<rparr>) =
     Inr (map (\<lambda>(g, k). (k, to_pyval (sql_avg (map (loan_amount_of df)
                                             (rows_with_grade g (df\<lparr>df_rows := rs\<rparr>))))))
            tracked_grades)" for rs
    using loan_query_result [of "df\<lparr>df_rows := rs\<rparr>" i j] ij by (simp add: amount)
  then show ?thesis
    using same by (auto intro: map_cong)
qed

theorem untracked_grades_ignored_witness:
  "loan_query \<lparr>df_columns = [''id'', ''loan_amount'', ''grade''],
          df_rows = [[Num 1, Num 1000, Str ''A''], [Num 2, Num 2000, Str ''A''],
                     [Num 3, Num 500, Str ''B''], [Num 4, Num 700, Str ''E'']]\<rparr> =
   loan_query \<lparr>df_columns = [''id'', ''loan_amount'', ''grade''],
          df_rows = [[Num 1, Num 1000, Str ''A''], [Num 9, Num 40, Str ''F''],
                     [Num 2, Num 2000, Str ''A''], [Num 3, Num 500, Str ''B'']]\<rparr>"
proof -
  let ?df = "\<lparr>df_columns = [''id'', ''loan_amount'', ''grade''], df_rows = []\<rparr>"
  let ?rows1 = "[[Num 1, Num 1000, Str ''A''], [Num 2, Num 2000, Str ''A''],
                 [Num 3, Num 500, Str ''B''], [Num 4, Num 700, Str ''E'']]"
  let ?rows2 = "[[Num 1, Num 1000, Str ''A''], [Num 9, Num 40, Str ''F''],
                 [Num 2, Num 2000, Str ''A''], [Num 3, Num 500, Str ''B'']]"
  have h: "filter (\<lambda>r. tracked_grade (grade_of ?df r)) ?rows1 =
           filter (\<lambda>r. tracked_grade (grade_of ?df r)) ?rows2"
    by (simp add: tracked_grade_def tracked_grades_def grade_of_def cell_at_def)
  show ?thesis
    using untracked_grades_ignored [OF h] by simp
qed

end
